theory Spec2Isabelle
  imports Main "HOL-Library.AList" "HOL-Library.Sublist"
begin

section \<open>JSON values and Python dictionaries\<close>

text \<open>
  The ledger of pacwrap is the result of \<^verbatim>\<open>json.load\<close>: nested dictionaries, lists,
  strings, booleans, integers and \<^verbatim>\<open>None\<close>. A Python dictionary keeps the insertion order
  of its keys, so it is an association list: \<open>map_of\<close> reads a key, \<open>AList.update\<close>
  overwrites a key in place or appends a new one at the end, \<open>AList.delete\<close> is
  \<^verbatim>\<open>pop(key, None)\<close>. JSON floats are left out.
\<close>

datatype json =
    JNull
  | JBool bool
  | JNum int
  | JStr string
  | JList "json list"
  | JObj "(string \<times> json) list"

type_synonym dict = "(string \<times> json) list"

text \<open>Python's truth value of a JSON value (\<^verbatim>\<open>if version:\<close>, \<^verbatim>\<open>if not last_update:\<close>).\<close>

fun truthy :: "json \<Rightarrow> bool" where
  "truthy JNull = False"
| "truthy (JBool b) = b"
| "truthy (JNum n) = (n \<noteq> 0)"
| "truthy (JStr s) = (s \<noteq> [])"
| "truthy (JList xs) = (xs \<noteq> [])"
| "truthy (JObj d) = (d \<noteq> [])"

text \<open>\<^verbatim>\<open>key in d\<close> for a dictionary \<open>d\<close>, of JSON values or of entries.\<close>

definition has_key :: "(string \<times> 'a) list \<Rightarrow> string \<Rightarrow> bool" where
  "has_key d k = (map_of d k \<noteq> None)"

text \<open>\<^verbatim>\<open>d.get(key, default)\<close>.\<close>

definition dict_get :: "dict \<Rightarrow> string \<Rightarrow> json \<Rightarrow> json" where
  "dict_get d k dflt = (case map_of d k of None \<Rightarrow> dflt | Some v \<Rightarrow> v)"

text \<open>The exceptions that the operations below let escape.\<close>

datatype py_error = KeyError | AttributeError | TypeError

text \<open>
  \<^verbatim>\<open>key in v\<close> for a string \<open>key\<close> and any JSON value \<open>v\<close>: a key of a dictionary, a
  substring of a string, an element of a list; \<^verbatim>\<open>None\<close>, booleans and numbers are not
  iterable and raise \<^verbatim>\<open>TypeError\<close>.
\<close>

fun py_in :: "string \<Rightarrow> json \<Rightarrow> py_error + bool" where
  "py_in key (JObj d) = Inr (has_key d key)"
| "py_in key (JStr s) = Inr (sublist key s)"
| "py_in key (JList xs) = Inr (JStr key \<in> set xs)"
| "py_in key JNull = Inl TypeError"
| "py_in key (JBool b) = Inl TypeError"
| "py_in key (JNum n) = Inl TypeError"

section \<open>Time stamps\<close>

text \<open>
  A datetime has calendar fields down to the microsecond and a \<^verbatim>\<open>tzinfo\<close>: \<open>None\<close> for a
  naive datetime, else the offset from UTC in microseconds and the name of the zone.
  \<^verbatim>\<open>datetime.now()\<close> is naive. Every stamp the program stores is
  \<^verbatim>\<open>datetime.now().strftime("%a %d %b %Y %I:%M:%S %p %Z")\<close>: weekday and month names of the
  C locale, a twelve-hour clock, no field below the second, and an empty \<^verbatim>\<open>%Z\<close> since the
  datetime is naive (the stamp ends with the blank before it).
\<close>

record datetime =
  year :: nat
  month :: nat
  day :: nat
  hour :: nat
  minute :: nat
  second :: nat
  microsecond :: nat
  tzinfo :: "(int \<times> string) option"

definition is_leap :: "nat \<Rightarrow> bool" where
  "is_leap y = (y mod 4 = 0 \<and> (y mod 100 \<noteq> 0 \<or> y mod 400 = 0))"

definition days_in_month :: "nat \<Rightarrow> nat \<Rightarrow> nat" where
  "days_in_month y m =
     (if m = 2 then (if is_leap y then 29 else 28)
      else if m \<in> {4, 6, 9, 11} then 30 else 31)"

text \<open>Days in the months of year \<open>y\<close> before month \<open>m\<close>.\<close>

definition days_before_month :: "nat \<Rightarrow> nat \<Rightarrow> nat" where
  "days_before_month y m = sum_list (map (days_in_month y) [1..<m])"

text \<open>Days before the first of January of year \<open>y\<close>, counted from year 1.\<close>

definition days_before_year :: "nat \<Rightarrow> nat" where
  "days_before_year y = (let p = y - 1 in p * 365 + p div 4 - p div 100 + p div 400)"

text \<open>\<^verbatim>\<open>date.toordinal()\<close>: the first of January of year 1 is day 1.\<close>

definition toordinal :: "datetime \<Rightarrow> nat" where
  "toordinal d = days_before_year (year d) + days_before_month (year d) (month d) + day d"

text \<open>\<^verbatim>\<open>date.weekday()\<close>: Monday is 0.\<close>

definition weekday :: "datetime \<Rightarrow> nat" where
  "weekday d = (toordinal d + 6) mod 7"

definition digit_char :: "nat \<Rightarrow> char" where
  "digit_char n = ''0123456789'' ! (n mod 10)"

fun str_nat :: "nat \<Rightarrow> string" where
  "str_nat n = (if n < 10 then [digit_char n] else str_nat (n div 10) @ [digit_char n])"

declare str_nat.simps [simp del]

text \<open>\<^verbatim>\<open>str(n)\<close> of a Python integer, as an f-string renders it.\<close>

definition str_int :: "int \<Rightarrow> string" where
  "str_int i = (if i < 0 then CHR ''-'' # str_nat (nat (- i)) else str_nat (nat i))"

text \<open>A two-digit field (\<^verbatim>\<open>%d\<close>, \<^verbatim>\<open>%I\<close>, \<^verbatim>\<open>%M\<close>, \<^verbatim>\<open>%S\<close>).\<close>

definition two_digits :: "nat \<Rightarrow> string" where
  "two_digits n = [digit_char (n div 10), digit_char n]"

definition day_abbr :: "nat \<Rightarrow> string" where
  "day_abbr n = [''Mon'', ''Tue'', ''Wed'', ''Thu'', ''Fri'', ''Sat'', ''Sun''] ! (n mod 7)"

definition month_abbr :: "nat \<Rightarrow> string" where
  "month_abbr m =
     [''Jan'', ''Feb'', ''Mar'', ''Apr'', ''May'', ''Jun'',
      ''Jul'', ''Aug'', ''Sep'', ''Oct'', ''Nov'', ''Dec''] ! ((m - 1) mod 12)"

text \<open>\<^verbatim>\<open>%I\<close>: the hour on a twelve-hour clock, 12 for midnight and noon.\<close>

definition hour12 :: "nat \<Rightarrow> nat" where
  "hour12 h = (if h mod 12 = 0 then 12 else h mod 12)"

text \<open>\<^verbatim>\<open>dt.strftime("%a %d %b %Y %I:%M:%S %p %Z")\<close>; \<^verbatim>\<open>%Z\<close> is the name of the zone, empty
  for a naive datetime.\<close>

definition strftime :: "datetime \<Rightarrow> string" where
  "strftime d =
     day_abbr (weekday d) @ '' '' @ two_digits (day d) @ '' '' @ month_abbr (month d) @ '' '' @
     str_nat (year d) @ '' '' @ two_digits (hour12 (hour d)) @ '':'' @ two_digits (minute d) @
     '':'' @ two_digits (second d) @ '' '' @ (if hour d < 12 then ''AM'' else ''PM'') @ '' '' @
     (case tzinfo d of None \<Rightarrow> [] | Some (utcoffset, tzname) \<Rightarrow> tzname)"

text \<open>Microseconds of the calendar fields since the start of year 1.\<close>

definition to_micro :: "datetime \<Rightarrow> int" where
  "to_micro d =
     ((((int (toordinal d) * 24 + int (hour d)) * 60 + int (minute d)) * 60 + int (second d))
        * 1000000) + int (microsecond d)"

text \<open>
  \<^verbatim>\<open>(now - last).days\<close>. Two naive datetimes are subtracted field by field, two aware
  ones after taking their offsets off, and a naive and an aware one raise
  \<^verbatim>\<open>TypeError\<close>. A timedelta is normalised with a floor, so the days are negative when
  the second datetime is the later one.
\<close>

definition days_since :: "datetime \<Rightarrow> datetime \<Rightarrow> py_error + int" where
  "days_since t_now t_last =
     (case (tzinfo t_now, tzinfo t_last) of
        (None, None) \<Rightarrow> Inr ((to_micro t_now - to_micro t_last) div (86400 * 1000000))
      | (Some (off_now, _), Some (off_last, _)) \<Rightarrow>
          Inr (((to_micro t_now - off_now) - (to_micro t_last - off_last)) div (86400 * 1000000))
      | _ \<Rightarrow> Inl TypeError)"

text \<open>
  What \<^verbatim>\<open>datetime.now()\<close> can return: a naive datetime with every field in its range
  (years from \<^verbatim>\<open>MINYEAR\<close> to \<^verbatim>\<open>MAXYEAR\<close>). Two readings fall in the same second when they
  agree on every field but the microsecond.
\<close>

definition valid_now :: "datetime \<Rightarrow> bool" where
  "valid_now d =
     (1 \<le> year d \<and> year d \<le> 9999 \<and> 1 \<le> month d \<and> month d \<le> 12 \<and>
      1 \<le> day d \<and> day d \<le> days_in_month (year d) (month d) \<and>
      hour d < 24 \<and> minute d < 60 \<and> second d < 60 \<and> microsecond d < 1000000 \<and>
      tzinfo d = None)"

definition same_second :: "datetime \<Rightarrow> datetime \<Rightarrow> bool" where
  "same_second a b =
     (year a = year b \<and> month a = month b \<and> day a = day b \<and>
      hour a = hour b \<and> minute a = minute b \<and> second a = second b)"

section \<open>The record store\<close>

text \<open>
  \<^verbatim>\<open>Database.data\<close> is \<^verbatim>\<open>{"packages": {name: entry}, "metadata": {...}}\<close>; an entry is
  a dictionary, so it may lack fields, and the \<^verbatim>\<open>"metadata"\<close> key may be missing, as
  \<^verbatim>\<open>_load\<close> accepts a ledger without it. The backing file is absent, holds text that
  \<^verbatim>\<open>json.load\<close> rejects (with the decoder's message), or holds a JSON document.
  \<^verbatim>\<open>Logger\<close> appends (level, category, message) to the log; what a command prints is kept
  as a list of lines. Writing the file and the log is taken to succeed.
\<close>

record db_content =
  packages :: "(string \<times> dict) list"
  metadata :: "dict option"

datatype db_file = Missing | Garbled string | Doc json

type_synonym log_entry = "string \<times> string \<times> string"

datatype printed =
    PackageNameRequired
  | DryRunRemove string
  | DryRunUpdate
  | UpdatingOfficial
  | UpdatingAur
  | Uninstalled string
  | UninstallFailed string
  | UpdatePolicy string
  | SystemUpdated
  | SystemUpdateFailed
  | SystemUpdateError
  | ImportInvalidFormat
  | Imported nat
  | ImportError

record world =
  data :: db_content
  disk :: db_file
  logs :: "log_entry list"
  out :: "printed list"

definition log_info :: "string \<Rightarrow> string \<Rightarrow> world \<Rightarrow> world" where
  "log_info category message w = w\<lparr>logs := logs w @ [(''INFO'', category, message)]\<rparr>"

definition log_error :: "string \<Rightarrow> string \<Rightarrow> world \<Rightarrow> world" where
  "log_error category message w = w\<lparr>logs := logs w @ [(''ERROR'', category, message)]\<rparr>"

definition log_warning :: "string \<Rightarrow> string \<Rightarrow> world \<Rightarrow> world" where
  "log_warning category message w = w\<lparr>logs := logs w @ [(''WARNING'', category, message)]\<rparr>"

definition print :: "printed \<Rightarrow> world \<Rightarrow> world" where
  "print line w = w\<lparr>out := out w @ [line]\<rparr>"

text \<open>What \<^verbatim>\<open>json.dump(self.data, f)\<close> writes.\<close>

definition encode :: "db_content \<Rightarrow> json" where
  "encode d =
     JObj ((''packages'', JObj (map (\<lambda>(name, pkg). (name, JObj pkg)) (packages d))) #
           (case metadata d of None \<Rightarrow> [] | Some m \<Rightarrow> [(''metadata'', JObj m)]))"

text \<open>\<^verbatim>\<open>Database._save()\<close>: rewrite the whole file from the data in memory.\<close>

definition save :: "world \<Rightarrow> world" where
  "save w = log_info ''database'' ''Database saved successfully'' (w\<lparr>disk := Doc (encode (data w))\<rparr>)"

text \<open>
  What a reader of the ledger file finds in it: the field \<open>key\<close> of the entry of \<open>name\<close>
  under \<^verbatim>\<open>"packages"\<close>, and the value of \<open>key\<close> under \<^verbatim>\<open>"metadata"\<close>.
\<close>

definition file_entry_field :: "db_file \<Rightarrow> string \<Rightarrow> string \<Rightarrow> json option" where
  "file_entry_field f name key =
     (case f of
        Doc (JObj obj) \<Rightarrow>
          (case map_of obj ''packages'' of
             Some (JObj ps) \<Rightarrow>
               (case map_of ps name of Some (JObj e) \<Rightarrow> map_of e key | _ \<Rightarrow> None)
           | _ \<Rightarrow> None)
      | _ \<Rightarrow> None)"

definition file_metadata_field :: "db_file \<Rightarrow> string \<Rightarrow> json option" where
  "file_metadata_field f key =
     (case f of
        Doc (JObj obj) \<Rightarrow>
          (case map_of obj ''metadata'' of Some (JObj m) \<Rightarrow> map_of m key | _ \<Rightarrow> None)
      | _ \<Rightarrow> None)"

text \<open>The store a missing or undecodable file gives.\<close>

definition default_data :: db_content where
  "default_data = \<lparr>packages = [], metadata = Some [(''last_full_update_date'', JNull)]\<rparr>"

text \<open>Replace the entry of \<open>name\<close> in \<^verbatim>\<open>self.data["packages"]\<close>.\<close>

definition put_package :: "string \<Rightarrow> dict \<Rightarrow> world \<Rightarrow> world" where
  "put_package name pkg w =
     w\<lparr>data := (data w)\<lparr>packages := AList.update name pkg (packages (data w))\<rparr>\<rparr>"

text \<open>
  \<^verbatim>\<open>Database.add_package\<close>; \<open>clock\<close> is what \<^verbatim>\<open>datetime.now()\<close> returns in the call.
  The arguments are JSON values, as \<^verbatim>\<open>cmd_import\<close> passes what it reads; \<open>groups\<close> and
  \<open>provides\<close> default to \<^verbatim>\<open>None\<close>. First the branch of a name that has an entry, which
  assigns to the fields one after the other, then the entry of a new name.
\<close>

definition update_entry ::
  "json \<Rightarrow> json \<Rightarrow> json \<Rightarrow> json \<Rightarrow> json \<Rightarrow> json \<Rightarrow> json \<Rightarrow> json \<Rightarrow> dict \<Rightarrow> dict" where
  "update_entry now repo dependencies installed version install_date groups provides pkg0 =
     (let pkg1 = AList.update ''installed'' installed pkg0;
          pkg2 = AList.update ''repo'' repo pkg1;
          pkg3 = AList.update ''dependencies'' dependencies pkg2;
          pkg4 = AList.update ''groups'' (if groups \<noteq> JNull then groups else JList []) pkg3;
          pkg5 = AList.update ''provides'' (if provides \<noteq> JNull then provides else JList []) pkg4;
          pkg6 = AList.update ''last_update_date'' now pkg5;
          pkg7 = (if truthy version then AList.update ''version'' version pkg6 else pkg6);
          pkg8 = (if truthy install_date
                  then AList.update ''install_date'' install_date pkg7 else pkg7)
      in pkg8)"

definition new_entry ::
  "json \<Rightarrow> string \<Rightarrow> json \<Rightarrow> json \<Rightarrow> json \<Rightarrow> json \<Rightarrow> json \<Rightarrow> json \<Rightarrow> json \<Rightarrow> dict" where
  "new_entry now name repo dependencies installed version install_date groups provides =
     [(''name'', JStr name),
      (''installed'', installed),
      (''repo'', repo),
      (''dependencies'', dependencies),
      (''groups'', if groups \<noteq> JNull then groups else JList []),
      (''provides'', if provides \<noteq> JNull then provides else JList []),
      (''version'', version),
      (''install_date'', if truthy install_date then install_date else now),
      (''update_history'', JList []),
      (''last_update_date'', now)]"

definition add_package ::
  "datetime \<Rightarrow> string \<Rightarrow> json \<Rightarrow> json \<Rightarrow> json \<Rightarrow> json \<Rightarrow> json \<Rightarrow> json \<Rightarrow> json \<Rightarrow> world \<Rightarrow> world" where
  "add_package clock name repo dependencies installed version install_date groups provides w =
     (let now = JStr (strftime clock);
          w' = (case map_of (packages (data w)) name of
                  Some pkg0 \<Rightarrow>
                    put_package name
                      (update_entry now repo dependencies installed version install_date groups
                         provides pkg0) w
                | None \<Rightarrow>
                    put_package name
                      (new_entry now name repo dependencies installed version install_date groups
                         provides) w)
      in log_info ''database'' (''Package '' @ name @ '' updated in database'') (save w'))"

text \<open>\<^verbatim>\<open>Database.set_installed\<close>.\<close>

definition set_installed :: "datetime \<Rightarrow> string \<Rightarrow> bool \<Rightarrow> world \<Rightarrow> world" where
  "set_installed clock name installed w =
     (case map_of (packages (data w)) name of
        Some pkg0 \<Rightarrow>
          (let pkg1 = AList.update ''installed'' (JBool installed) pkg0;
               pkg2 = AList.update ''last_update_date'' (JStr (strftime clock)) pkg1
           in log_info ''database''
                (''Package '' @ name @ '' marked as '' @
                   (if installed then ''installed'' else ''uninstalled''))
                (save (put_package name pkg2 w)))
      | None \<Rightarrow> w)"

text \<open>
  \<^verbatim>\<open>Database.add_version_history\<close>. \<^verbatim>\<open>pkg["update_history"]\<close> raises KeyError on an entry
  without the field, and \<^verbatim>\<open>.append\<close> raises AttributeError on a value that is no list.
\<close>

definition add_version_history :: "datetime \<Rightarrow> string \<Rightarrow> string \<Rightarrow> world \<Rightarrow> py_error + world" where
  "add_version_history clock name version w =
     (case map_of (packages (data w)) name of
        Some pkg0 \<Rightarrow>
          (case map_of pkg0 ''update_history'' of
             None \<Rightarrow> Inl KeyError
           | Some (JList history) \<Rightarrow>
               Inr (save (put_package name
                 (AList.update ''update_history''
                    (JList (history @
                       [JObj [(''version'', JStr version), (''date'', JStr (strftime clock))]]))
                    pkg0) w))
           | Some _ \<Rightarrow> Inl AttributeError)
      | None \<Rightarrow> Inr w)"

text \<open>
  Python's \<^verbatim>\<open>==\<close> on JSON values: \<^verbatim>\<open>True == 1\<close> and \<^verbatim>\<open>False == 0\<close>, lists are equal
  element by element, dictionaries when they have the same keys with equal values, in
  any order.
\<close>

fun py_eq :: "json \<Rightarrow> json \<Rightarrow> bool" where
  "py_eq JNull b = (b = JNull)"
| "py_eq (JBool x) b =
     (case b of JBool y \<Rightarrow> x = y | JNum n \<Rightarrow> n = (if x then 1 else 0) | _ \<Rightarrow> False)"
| "py_eq (JNum m) b =
     (case b of JBool y \<Rightarrow> m = (if y then 1 else 0) | JNum n \<Rightarrow> m = n | _ \<Rightarrow> False)"
| "py_eq (JStr s) b = (b = JStr s)"
| "py_eq (JList xs) b = (case b of JList ys \<Rightarrow> list_all2 py_eq xs ys | _ \<Rightarrow> False)"
| "py_eq (JObj xs) b =
     (case b of
        JObj ys \<Rightarrow>
          length xs = length ys \<and>
          list_all (\<lambda>(k, v). case map_of ys k of None \<Rightarrow> False | Some u \<Rightarrow> py_eq v u) xs
      | _ \<Rightarrow> False)"

text \<open>
  \<^verbatim>\<open>Database.query_packages(**filters)\<close>. The inner loop over the filters stops with
  \<^verbatim>\<open>match = False\<close> at the first key that the entry has with another value.
\<close>

fun matches :: "(string \<times> json) list \<Rightarrow> dict \<Rightarrow> bool" where
  "matches [] pkg = True"
| "matches ((key, v) # rest) pkg =
     (case map_of pkg key of
        Some x \<Rightarrow> if \<not> py_eq x v then False else matches rest pkg
      | None \<Rightarrow> matches rest pkg)"

fun query_loop :: "(string \<times> json) list \<Rightarrow> (string \<times> dict) list \<Rightarrow> (string \<times> dict) list" where
  "query_loop filters [] = []"
| "query_loop filters ((name, pkg) # rest) =
     (if matches filters pkg then (name, pkg) # query_loop filters rest
      else query_loop filters rest)"

definition query_packages :: "(string \<times> json) list \<Rightarrow> world \<Rightarrow> (string \<times> dict) list" where
  "query_packages filters w = query_loop filters (packages (data w))"

text \<open>The field \<open>key\<close> of the entry of \<open>name\<close>: \<^verbatim>\<open>data["packages"][name][key]\<close>, if there.\<close>

definition entry_field :: "world \<Rightarrow> string \<Rightarrow> string \<Rightarrow> json option" where
  "entry_field w name key =
     (case map_of (packages (data w)) name of None \<Rightarrow> None | Some e \<Rightarrow> map_of e key)"

section \<open>The package manager\<close>

text \<open>
  \<^verbatim>\<open>SystemInterface._run_command\<close> starts a subprocess. How the subprocess ends is not
  the program's: it completes, exits with a nonzero status (\<^verbatim>\<open>CalledProcessError\<close>, with
  its text) or cannot be started (\<^verbatim>\<open>FileNotFoundError\<close>). The function returns whether
  the command completed; otherwise it has raised \<^verbatim>\<open>PacwrapError\<close>.
\<close>

datatype run_result = Completed | CalledProcessError string | CommandNotFound

fun join_words :: "string list \<Rightarrow> string" where
  "join_words [] = []"
| "join_words [x] = x"
| "join_words (x # y # ys) = x @ '' '' @ join_words (y # ys)"

definition run_command :: "run_result \<Rightarrow> string list \<Rightarrow> world \<Rightarrow> bool \<times> world" where
  "run_command r cmd w =
     (let w1 = log_info ''system'' (''Running command: '' @ join_words cmd) w
      in case r of
           Completed \<Rightarrow> (True, w1)
         | CalledProcessError e \<Rightarrow>
             (False, log_error ''system'' (''Command failed: '' @ join_words cmd @ '' - '' @ e) w1)
         | CommandNotFound \<Rightarrow>
             (False, log_error ''system'' (''Command not found: '' @ hd cmd) w1))"

text \<open>\<^verbatim>\<open>SystemInterface.remove_package\<close>.\<close>

definition remove_package :: "run_result \<Rightarrow> string \<Rightarrow> bool \<Rightarrow> world \<Rightarrow> bool \<times> world" where
  "remove_package r package dryrun w =
     (if dryrun then (True, print (DryRunRemove package) w)
      else run_command r [''sudo'', ''pacman'', ''-R'', package]
             (log_info ''remove'' (''Removing '' @ package) w))"

text \<open>\<^verbatim>\<open>SystemInterface.update_system\<close>; \<open>r1\<close> and \<open>r2\<close> are how the two commands end.\<close>

definition update_system ::
  "string \<Rightarrow> run_result \<Rightarrow> run_result \<Rightarrow> bool \<Rightarrow> world \<Rightarrow> bool \<times> world" where
  "update_system aur_helper r1 r2 dryrun w =
     (if dryrun then (True, print DryRunUpdate w)
      else
        (let w1 = print UpdatingOfficial (log_info ''update'' ''Updating official repositories'' w);
             (ok1, w2) = run_command r1 [''sudo'', ''pacman'', ''-Syu''] w1
         in if \<not> ok1 then (False, w2)
            else if aur_helper \<noteq> [] then
              (let w3 = print UpdatingAur (log_info ''update'' ''Updating AUR packages'' w2);
                   (ok2, w4) = run_command r2 [aur_helper, ''-Sua''] w3
               in if \<not> ok2 then (False, w4) else (True, w4))
            else (True, w2)))"

subsection \<open>Names in the package manager's output\<close>









section \<open>The update policy\<close>

text \<open>
  \<^verbatim>\<open>datetime.strptime(s, "%a %d %b %Y %I:%M:%S %p %Z")\<close> and \<^verbatim>\<open>datetime.fromisoformat(s)\<close>
  are the library's: each returns a datetime or raises \<^verbatim>\<open>ValueError\<close> (\<open>None\<close>), and both
  raise \<^verbatim>\<open>TypeError\<close> on a value that is no string. They are parameters \<open>strptime\<close> and
  \<open>fromiso\<close> of the functions that call them; UTC offsets are left out.
\<close>

text \<open>The four bands of \<^verbatim>\<open>_check_update_policy\<close>, tested from the largest threshold down.\<close>

definition policy_band :: "int \<Rightarrow> bool \<times> string" where
  "policy_band days =
     (if days \<ge> 90 then (True, ''Critical: '' @ str_int days @ '' days since last update'')
      else if days \<ge> 30 then (False, ''Warning: '' @ str_int days @ '' days since last update'')
      else if days \<ge> 7 then (False, ''Recommended: '' @ str_int days @ '' days since last update'')
      else (False, ''Recent: '' @ str_int days @ '' days since last update''))"

text \<open>
  \<^verbatim>\<open>Pacwrap._check_update_policy\<close>; \<open>clock\<close> is \<^verbatim>\<open>datetime.now()\<close>.
  \<^verbatim>\<open>self.database.data["metadata"]\<close> raises \<^verbatim>\<open>KeyError\<close> on a ledger without metadata; the
  two \<^verbatim>\<open>except\<close> clauses catch \<^verbatim>\<open>ValueError\<close> only; the subtraction is outside them.
\<close>

definition age_band :: "datetime \<Rightarrow> datetime \<Rightarrow> py_error + bool \<times> string" where
  "age_band clock last_date =
     (case days_since clock last_date of
        Inl e \<Rightarrow> Inl e
      | Inr days \<Rightarrow> Inr (policy_band days))"

definition check_update_policy ::
  "(string \<Rightarrow> datetime option) \<Rightarrow> (string \<Rightarrow> datetime option) \<Rightarrow> datetime \<Rightarrow> db_content
     \<Rightarrow> py_error + bool \<times> string" where
  "check_update_policy strptime fromiso clock d =
     (case metadata d of
        None \<Rightarrow> Inl KeyError
      | Some m \<Rightarrow>
          (let last_update = dict_get m ''last_full_update_date'' JNull
           in if \<not> truthy last_update then Inr (True, ''No previous update found'')
              else case last_update of
                     JStr s \<Rightarrow>
                       (case strptime s of
                          Some last_date \<Rightarrow> age_band clock last_date
                        | None \<Rightarrow>
                            (case fromiso s of
                               Some last_date \<Rightarrow> age_band clock last_date
                             | None \<Rightarrow> Inr (True, ''Invalid last update date format'')))
                   | _ \<Rightarrow> Inl TypeError))"

section \<open>Metadata\<close>

text \<open>The \<^verbatim>\<open>try: fromisoformat ... except ValueError: pass\<close> of \<^verbatim>\<open>update_metadata\<close> and
  \<^verbatim>\<open>_load\<close>: an ISO string becomes a stamp, any other string stays.\<close>

definition to_human :: "(string \<Rightarrow> datetime option) \<Rightarrow> string \<Rightarrow> string" where
  "to_human fromiso s = (case fromiso s of Some dt \<Rightarrow> strftime dt | None \<Rightarrow> s)"

text \<open>\<^verbatim>\<open>Database.update_metadata\<close>; \<^verbatim>\<open>self.data["metadata"][key] = value\<close> raises
  \<^verbatim>\<open>KeyError\<close> on a ledger without metadata.\<close>

definition update_metadata ::
  "(string \<Rightarrow> datetime option) \<Rightarrow> string \<Rightarrow> json \<Rightarrow> world \<Rightarrow> py_error + world" where
  "update_metadata fromiso key v w =
     (let v' = (case v of
                  JStr s \<Rightarrow> if key = ''last_full_update_date'' then JStr (to_human fromiso s) else v
                | _ \<Rightarrow> v)
      in case metadata (data w) of
           None \<Rightarrow> Inl KeyError
         | Some m \<Rightarrow>
             Inr (save (w\<lparr>data := (data w)\<lparr>metadata := Some (AList.update key v' m)\<rparr>\<rparr>)))"

section \<open>Loading the ledger\<close>

text \<open>
  \<^verbatim>\<open>Database._load\<close> returns what \<^verbatim>\<open>json.load\<close> read, a JSON value of any shape, after
  rewriting the ISO dates in it. Its \<^verbatim>\<open>except\<close> clause names \<^verbatim>\<open>json.JSONDecodeError\<close> and
  \<^verbatim>\<open>FileNotFoundError\<close>; the \<^verbatim>\<open>AttributeError\<close> of \<^verbatim>\<open>.get\<close> and \<^verbatim>\<open>.values\<close> on a value
  that is no dictionary and the \<^verbatim>\<open>TypeError\<close> of \<^verbatim>\<open>in\<close>, of indexing a string or a list
  with a key, and of \<^verbatim>\<open>fromisoformat\<close> on a value that is no string pass through it.
  The keys of a dictionary that \<^verbatim>\<open>json.load\<close> returns are distinct.
\<close>

text \<open>One round of the loop over \<^verbatim>\<open>data.get("packages", {}).values()\<close>.\<close>

definition load_entry :: "(string \<Rightarrow> datetime option) \<Rightarrow> json \<Rightarrow> py_error + json" where
  "load_entry fromiso pkg =
     (case py_in ''last_update_date'' pkg of
        Inl e \<Rightarrow> Inl e
      | Inr False \<Rightarrow> Inr pkg
      | Inr True \<Rightarrow>
          (case pkg of
             JObj d \<Rightarrow>
               (let v = dict_get d ''last_update_date'' JNull
                in if \<not> truthy v then Inr pkg
                   else case v of
                          JStr s \<Rightarrow>
                            Inr (JObj (AList.update ''last_update_date''
                                         (JStr (to_human fromiso s)) d))
                        | _ \<Rightarrow> Inl TypeError)
           | _ \<Rightarrow> Inl TypeError))"

fun load_entries ::
  "(string \<Rightarrow> datetime option) \<Rightarrow> (string \<times> json) list \<Rightarrow> py_error + (string \<times> json) list" where
  "load_entries fromiso [] = Inr []"
| "load_entries fromiso ((name, pkg) # rest) =
     (case load_entry fromiso pkg of
        Inl e \<Rightarrow> Inl e
      | Inr pkg' \<Rightarrow>
          (case load_entries fromiso rest of
             Inl e \<Rightarrow> Inl e
           | Inr rest' \<Rightarrow> Inr ((name, pkg') # rest')))"

text \<open>The conversion of \<^verbatim>\<open>last_full_update_date\<close> in the metadata of the document \<open>obj\<close>.\<close>

definition load_metadata :: "(string \<Rightarrow> datetime option) \<Rightarrow> dict \<Rightarrow> py_error + dict" where
  "load_metadata fromiso obj =
     (case map_of obj ''metadata'' of
        None \<Rightarrow> Inr obj
      | Some (JObj m) \<Rightarrow>
          (let v = dict_get m ''last_full_update_date'' JNull
           in if \<not> truthy v then Inr obj
              else case v of
                     JStr s \<Rightarrow>
                       Inr (AList.update ''metadata''
                              (JObj (AList.update ''last_full_update_date''
                                       (JStr (to_human fromiso s)) m)) obj)
                   | _ \<Rightarrow> Inl TypeError)
      | Some _ \<Rightarrow> Inl AttributeError)"

text \<open>\<^verbatim>\<open>Database._load\<close>: the value returned, or the exception that escapes, and the world
  after it (the file created, the log written).\<close>

definition load :: "(string \<Rightarrow> datetime option) \<Rightarrow> world \<Rightarrow> (py_error + json) \<times> world" where
  "load fromiso w =
     (case disk w of
        Missing \<Rightarrow>
          (Inr (encode default_data),
           log_info ''database'' ''Database saved successfully''
             (w\<lparr>disk := Doc (encode default_data)\<rparr>))
      | Garbled msg \<Rightarrow>
          (Inr (encode default_data),
           log_error ''database'' (''Failed to load database: '' @ msg) w)
      | Doc (JObj obj) \<Rightarrow>
          (case map_of obj ''packages'' of
             None \<Rightarrow>
               (case load_metadata fromiso obj of
                  Inl e \<Rightarrow> (Inl e, w)
                | Inr obj' \<Rightarrow> (Inr (JObj obj'), w))
           | Some (JObj ps) \<Rightarrow>
               (case load_entries fromiso ps of
                  Inl e \<Rightarrow> (Inl e, w)
                | Inr ps' \<Rightarrow>
                    (case load_metadata fromiso (AList.update ''packages'' (JObj ps') obj) of
                       Inl e \<Rightarrow> (Inl e, w)
                     | Inr obj' \<Rightarrow> (Inr (JObj obj'), w)))
           | Some _ \<Rightarrow> (Inl AttributeError, w))
      | Doc _ \<Rightarrow> (Inl AttributeError, w))"

section \<open>Commands\<close>

text \<open>\<^verbatim>\<open>Pacwrap.cmd_uninstall\<close>; \<open>package\<close> is \<^verbatim>\<open>args.package\<close>, \<open>r\<close> how the removal
  command ends when it is run.\<close>

definition cmd_uninstall ::
  "bool \<Rightarrow> run_result \<Rightarrow> datetime \<Rightarrow> string list \<Rightarrow> world \<Rightarrow> bool \<times> world" where
  "cmd_uninstall dryrun r clock package w =
     (case package of
        [] \<Rightarrow> (False, print PackageNameRequired w)
      | p # _ \<Rightarrow>
          (let (success, w1) = (if \<not> dryrun then remove_package r p dryrun w else (True, w))
           in if success then (success, print (Uninstalled p) (set_installed clock p False w1))
              else (success, print (UninstallFailed p) w1)))"

text \<open>
  \<^verbatim>\<open>Pacwrap.cmd_update\<close>; \<open>force\<close> and \<open>interactive\<close> are the flags, \<open>response\<close> is what
  the user answers if asked, \<open>clock\<close> and \<open>clock'\<close> what \<^verbatim>\<open>datetime.now()\<close> returns in the
  policy check and after the update. An exception of the policy check is not caught here;
  one of \<^verbatim>\<open>update_metadata\<close> is, by the \<^verbatim>\<open>except Exception\<close> around the update.
\<close>

definition cmd_update ::
  "(string \<Rightarrow> datetime option) \<Rightarrow> (string \<Rightarrow> datetime option) \<Rightarrow> bool \<Rightarrow> bool \<Rightarrow> bool
     \<Rightarrow> string \<Rightarrow> string \<Rightarrow> run_result \<Rightarrow> run_result \<Rightarrow> datetime \<Rightarrow> datetime
     \<Rightarrow> world \<Rightarrow> (py_error + bool) \<times> world" where
  "cmd_update strptime fromiso dryrun force interactive response aur_helper r1 r2 clock clock' w =
     (case check_update_policy strptime fromiso clock (data w) of
        Inl e \<Rightarrow> (Inl e, w)
      | Inr (needs_update, message) \<Rightarrow>
          (let run_it = (\<lambda>w0.
                 (let (success, w1) = update_system aur_helper r1 r2 dryrun w0
                  in if success
                     then (case update_metadata fromiso ''last_full_update_date''
                                  (JStr (strftime clock')) w1 of
                             Inr w2 \<Rightarrow> (Inr success, print SystemUpdated w2)
                           | Inl e \<Rightarrow> (Inr False, print SystemUpdateError w1))
                     else (Inr success, print SystemUpdateFailed w1)))
           in if \<not> force \<and> \<not> needs_update then
                (let w0 = print (UpdatePolicy message) w
                 in if \<not> interactive then (Inr True, w0)
                    else if response \<noteq> ''y'' \<and> response \<noteq> ''Y'' then (Inr True, w0)
                    else run_it w0)
              else run_it w))"

section \<open>Export and import\<close>

text \<open>
  \<^verbatim>\<open>Database.export_data\<close>: a copy of every entry, without \<^verbatim>\<open>update_history\<close> unless the
  metadata is included; \<^verbatim>\<open>self.data["metadata"]\<close> raises \<^verbatim>\<open>KeyError\<close> on a ledger without
  metadata.
\<close>

definition export_data :: "bool \<Rightarrow> world \<Rightarrow> py_error + json" where
  "export_data include_metadata w =
     (let export_packages =
            map (\<lambda>(name, pkg).
                   (name, JObj (if \<not> include_metadata then AList.delete ''update_history'' pkg
                                else pkg)))
              (packages (data w))
      in if include_metadata then
           (case metadata (data w) of
              None \<Rightarrow> Inl KeyError
            | Some m \<Rightarrow> Inr (JObj [(''packages'', JObj export_packages), (''metadata'', JObj m)]))
         else Inr (JObj [(''packages'', JObj export_packages)]))"

text \<open>The fields that \<^verbatim>\<open>cmd_import\<close> requires of an entry, and
  \<^verbatim>\<open>all(key in pkg for key in [...])\<close>, which stops at the first key that is missing.\<close>

definition required_keys :: "string list" where
  "required_keys = [''repo'', ''installed'', ''dependencies'', ''groups'', ''provides'']"

fun all_in :: "string list \<Rightarrow> json \<Rightarrow> py_error + bool" where
  "all_in [] pkg = Inr True"
| "all_in (key # keys) pkg =
     (case py_in key pkg of
        Inl e \<Rightarrow> Inl e
      | Inr False \<Rightarrow> Inr False
      | Inr True \<Rightarrow> all_in keys pkg)"

text \<open>The call \<^verbatim>\<open>self.database.add_package(name, pkg.get("repo", "unknown"), ...)\<close> for
  an entry \<open>d\<close> of the file that is a dictionary.\<close>

definition add_imported :: "datetime \<Rightarrow> string \<Rightarrow> dict \<Rightarrow> world \<Rightarrow> world" where
  "add_imported now name d w =
     add_package now name
       (dict_get d ''repo'' (JStr ''unknown''))
       (dict_get d ''dependencies'' (JList []))
       (dict_get d ''installed'' (JBool False))
       (dict_get d ''version'' (JStr []))
       (dict_get d ''install_date'' (JStr []))
       (dict_get d ''groups'' (JList []))
       (dict_get d ''provides'' (JList [])) w"

text \<open>
  The loop of \<^verbatim>\<open>cmd_import\<close> over the items of \<^verbatim>\<open>packages\<close>, from the counter \<open>imported\<close>
  on. Every upsert reads the clock: \<open>clock i\<close> is the reading of the upsert after \<open>i\<close>
  earlier ones. \<^verbatim>\<open>pkg.get\<close> raises \<^verbatim>\<open>AttributeError\<close> on a string or a list. The loop ends
  with the counter or with the exception, and with the world as it is then.
\<close>

fun import_loop ::
  "(nat \<Rightarrow> datetime) \<Rightarrow> (string \<times> json) list \<Rightarrow> nat \<Rightarrow> world \<Rightarrow> (py_error + nat) \<times> world" where
  "import_loop clock [] imported w = (Inr imported, w)"
| "import_loop clock ((name, pkg) # rest) imported w =
     (case all_in required_keys pkg of
        Inl e \<Rightarrow> (Inl e, w)
      | Inr False \<Rightarrow>
          import_loop clock rest imported
            (log_warning ''import'' (''Skipping package '' @ name @ '': missing required fields'') w)
      | Inr True \<Rightarrow>
          (case pkg of
             JObj d \<Rightarrow>
               import_loop clock rest (Suc imported) (add_imported (clock imported) name d w)
           | _ \<Rightarrow> (Inl AttributeError, w)))"

text \<open>
  \<^verbatim>\<open>Pacwrap.cmd_import\<close> from the document \<open>doc\<close> that \<^verbatim>\<open>json.load\<close> or \<^verbatim>\<open>tomllib.load\<close>
  returned. \<^verbatim>\<open>data.get\<close> raises \<^verbatim>\<open>AttributeError\<close> on a document that is no dictionary;
  \<^verbatim>\<open>except Exception\<close> turns every exception into a printed error and \<^verbatim>\<open>False\<close>.
\<close>

definition cmd_import :: "(nat \<Rightarrow> datetime) \<Rightarrow> json \<Rightarrow> world \<Rightarrow> bool \<times> world" where
  "cmd_import clock doc w =
     (case doc of
        JObj obj \<Rightarrow>
          (case map_of obj ''packages'' of
             Some (JObj items) \<Rightarrow>
               (case import_loop clock items 0 w of
                  (Inr imported, w') \<Rightarrow> (True, print (Imported imported) w')
                | (Inl e, w') \<Rightarrow> (False, print ImportError w'))
           | _ \<Rightarrow> (False, print ImportInvalidFormat w))
      | _ \<Rightarrow> (False, print ImportError w))"

text \<open>
  What the import is to do with a file whose entries are dictionaries, in the words of
  its description: an entry that carries all five required fields is upserted, any other
  entry is skipped with a warning in the log.
\<close>

definition carries_required :: "dict \<Rightarrow> bool" where
  "carries_required d =
     (has_key d ''repo'' \<and> has_key d ''installed'' \<and> has_key d ''dependencies'' \<and>
      has_key d ''groups'' \<and> has_key d ''provides'')"

fun import_spec :: "(nat \<Rightarrow> datetime) \<Rightarrow> (string \<times> dict) list \<Rightarrow> nat \<Rightarrow> world \<Rightarrow> world" where
  "import_spec clock [] i w = w"
| "import_spec clock ((name, d) # rest) i w =
     (if carries_required d
      then import_spec clock rest (Suc i) (add_imported (clock i) name d w)
      else import_spec clock rest i
             (log_warning ''import'' (''Skipping package '' @ name @ '': missing required fields'')
                w))"

text \<open>The entries of a file as JSON, and the warnings in a log.\<close>

definition as_items :: "(string \<times> dict) list \<Rightarrow> (string \<times> json) list" where
  "as_items entries = map (\<lambda>(name, d). (name, JObj d)) entries"

definition warnings :: "log_entry list \<Rightarrow> log_entry list" where
  "warnings l = filter (\<lambda>(level, category, message). level = ''WARNING'') l"

section \<open>Sample inputs\<close>

text \<open>\<^verbatim>\<open>datetime(y, mo, d, h, mi, s, us)\<close>, a naive datetime.\<close>

definition naive :: "nat \<Rightarrow> nat \<Rightarrow> nat \<Rightarrow> nat \<Rightarrow> nat \<Rightarrow> nat \<Rightarrow> nat \<Rightarrow> datetime" where
  "naive y mo d h mi s us =
     \<lparr>year = y, month = mo, day = d, hour = h, minute = mi, second = s, microsecond = us,
      tzinfo = None\<rparr>"

text \<open>A clock reading, a later one within the same second, and one five seconds later.\<close>

definition clock0 :: datetime where
  "clock0 = naive 2024 1 1 10 0 0 100000"

definition clock1 :: datetime where
  "clock1 = naive 2024 1 1 10 0 0 600000"

definition clock2 :: datetime where
  "clock2 = naive 2024 1 1 10 0 5 0"

definition three_entries :: world where
  "three_entries =
     \<lparr>data = \<lparr>packages =
                 [(''yay'', [(''name'', JStr ''yay''), (''installed'', JBool True),
                             (''repo'', JStr ''aur'')]),
                  (''vim'', [(''name'', JStr ''vim''), (''installed'', JBool True),
                             (''repo'', JStr ''extra'')]),
                  (''paru'', [(''name'', JStr ''paru''), (''installed'', JBool False),
                              (''repo'', JStr ''aur'')])],
               metadata = Some [(''last_full_update_date'', JNull)]\<rparr>,
      disk = Missing, logs = [], out = []\<rparr>"

definition htop_entry :: dict where
  "htop_entry =
     [(''name'', JStr ''htop''), (''installed'', JBool True), (''repo'', JStr ''extra''),
      (''dependencies'', JList [JStr ''ncurses'']), (''groups'', JList []),
      (''provides'', JList []), (''version'', JStr ''3.3.0-1''),
      (''install_date'', JStr ''Sun 31 Dec 2023 09:00:00 PM ''),
      (''update_history'', JList []),
      (''last_update_date'', JStr ''Sun 31 Dec 2023 09:00:00 PM '')]"

definition world0 :: world where
  "world0 =
     \<lparr>data = \<lparr>packages = [(''htop'', htop_entry)],
               metadata = Some [(''last_full_update_date'', JNull)]\<rparr>,
      disk = Missing, logs = [], out = []\<rparr>"

text \<open>
  What \<^verbatim>\<open>strptime\<close> returns on some stamps with the zone name \<^verbatim>\<open>UTC\<close> (a naive datetime:
  \<^verbatim>\<open>%Z\<close> sets no \<^verbatim>\<open>tzinfo\<close>), and what \<^verbatim>\<open>fromisoformat\<close> returns on a string with an
  offset (an aware one).
\<close>

definition sample_strptime :: "string \<Rightarrow> datetime option" where
  "sample_strptime =
     map_of
       [(''Thu 28 Sep 2023 10:00:00 AM UTC'', naive 2023 9 28 10 0 0 0),
        (''Tue 03 Oct 2023 10:00:00 AM UTC'', naive 2023 10 3 10 0 0 0),
        (''Tue 03 Oct 2023 10:00:30 AM UTC'', naive 2023 10 3 10 0 30 0),
        (''Sat 02 Dec 2023 10:00:00 AM UTC'', naive 2023 12 2 10 0 0 0),
        (''Sat 02 Dec 2023 10:00:30 AM UTC'', naive 2023 12 2 10 0 30 0),
        (''Mon 25 Dec 2023 10:00:00 AM UTC'', naive 2023 12 25 10 0 0 0),
        (''Mon 25 Dec 2023 10:00:30 AM UTC'', naive 2023 12 25 10 0 30 0),
        (''Fri 02 Feb 2024 10:00:00 AM UTC'', naive 2024 2 2 10 0 0 0)]"

definition no_iso :: "string \<Rightarrow> datetime option" where
  "no_iso s = None"




text \<open>
  An import file with two entries, of which \<^verbatim>\<open>fd\<close> lacks \<^verbatim>\<open>groups\<close>; one whose only entry
  is a number; a clock that gives the same reading to every upsert; an empty ledger.
\<close>

definition two_entries :: "(string \<times> dict) list" where
  "two_entries =
     [(''fd'', [(''repo'', JStr ''extra''), (''installed'', JBool True),
                (''dependencies'', JList [JStr ''glibc'']), (''provides'', JList [])]),
      (''bat'', [(''repo'', JStr ''extra''), (''installed'', JBool True),
                 (''dependencies'', JList [JStr ''glibc'']), (''groups'', JList []),
                 (''provides'', JList []), (''version'', JStr ''0.24.0-1'')])]"

definition two_entry_file :: json where
  "two_entry_file = JObj [(''packages'', JObj (as_items two_entries))]"

definition number_entry_file :: json where
  "number_entry_file = JObj [(''packages'', JObj [(''a'', JNum 5)])]"

definition steady :: "nat \<Rightarrow> datetime" where
  "steady i = clock0"

definition empty_world :: world where
  "empty_world = \<lparr>data = default_data, disk = Doc (encode default_data), logs = [], out = []\<rparr>"

section \<open>How the operations change the world\<close>

lemma log_info_simps [simp]:
  "data (log_info c m w) = data w" "disk (log_info c m w) = disk w" "out (log_info c m w) = out w"
  by (simp_all add: log_info_def)

lemma log_error_simps [simp]:
  "data (log_error c m w) = data w" "disk (log_error c m w) = disk w" "out (log_error c m w) = out w"
  by (simp_all add: log_error_def)

lemma log_warning_simps [simp]:
  "data (log_warning c m w) = data w" "disk (log_warning c m w) = disk w"
  "out (log_warning c m w) = out w"
  by (simp_all add: log_warning_def)

lemma print_simps [simp]:
  "data (print l w) = data w" "disk (print l w) = disk w" "logs (print l w) = logs w"
  by (simp_all add: print_def)

lemma save_simps [simp]:
  "data (save w) = data w" "disk (save w) = Doc (encode (data w))" "out (save w) = out w"
  by (simp_all add: save_def)

lemma put_package_simps [simp]:
  "packages (data (put_package n p w)) = AList.update n p (packages (data w))"
  "metadata (data (put_package n p w)) = metadata (data w)"
  "out (put_package n p w) = out w" "logs (put_package n p w) = logs w"
  by (simp_all add: put_package_def)

lemma update_metadata_stamp:
  "metadata (data w) = Some m \<Longrightarrow>
   update_metadata f ''last_full_update_date'' (JStr s) w =
     Inr (save (w\<lparr>data := (data w)\<lparr>metadata :=
            Some (AList.update ''last_full_update_date'' (JStr (to_human f s)) m)\<rparr>\<rparr>))"
  by (simp add: update_metadata_def)

lemma strftime_clock0: "strftime clock0 = ''Mon 01 Jan 2024 10:00:00 AM ''"
  by (simp add: strftime_def clock0_def naive_def weekday_def toordinal_def days_before_year_def
      days_before_month_def days_in_month_def is_leap_def day_abbr_def month_abbr_def
      two_digits_def digit_char_def hour12_def str_nat.simps Let_def)

lemma strftime_clock1: "strftime clock1 = ''Mon 01 Jan 2024 10:00:00 AM ''"
  by (simp add: strftime_def clock1_def naive_def weekday_def toordinal_def days_before_year_def
      days_before_month_def days_in_month_def is_leap_def day_abbr_def month_abbr_def
      two_digits_def digit_char_def hour12_def str_nat.simps Let_def)

lemma strftime_clock2: "strftime clock2 = ''Mon 01 Jan 2024 10:00:05 AM ''"
  by (simp add: strftime_def clock2_def naive_def weekday_def toordinal_def days_before_year_def
      days_before_month_def days_in_month_def is_leap_def day_abbr_def month_abbr_def
      two_digits_def digit_char_def hour12_def str_nat.simps Let_def)

lemma clock0_before_clock1: "to_micro clock0 < to_micro clock1"
  by (simp add: to_micro_def toordinal_def clock0_def clock1_def naive_def)

lemma map_of_update_entry:
  "map_of (update_entry now repo deps inst ver idate groups prov e) k =
     (if k = ''install_date'' \<and> truthy idate then Some idate
      else if k = ''version'' \<and> truthy ver then Some ver
      else if k = ''last_update_date'' then Some now
      else if k = ''provides'' then Some (if prov \<noteq> JNull then prov else JList [])
      else if k = ''groups'' then Some (if groups \<noteq> JNull then groups else JList [])
      else if k = ''dependencies'' then Some deps
      else if k = ''repo'' then Some repo
      else if k = ''installed'' then Some inst
      else map_of e k)"
  by (simp add: update_entry_def Let_def update_conv')

lemma map_of_new_entry:
  "map_of (new_entry now name repo deps inst ver idate groups prov) k =
     (if k = ''name'' then Some (JStr name)
      else if k = ''installed'' then Some inst
      else if k = ''repo'' then Some repo
      else if k = ''dependencies'' then Some deps
      else if k = ''groups'' then Some (if groups \<noteq> JNull then groups else JList [])
      else if k = ''provides'' then Some (if prov \<noteq> JNull then prov else JList [])
      else if k = ''version'' then Some ver
      else if k = ''install_date'' then Some (if truthy idate then idate else now)
      else if k = ''update_history'' then Some (JList [])
      else if k = ''last_update_date'' then Some now
      else None)"
  by (simp add: new_entry_def)

lemma add_package_packages:
  "packages (data (add_package t name repo deps inst ver idate groups prov w)) =
     AList.update name
       (case map_of (packages (data w)) name of
          Some e \<Rightarrow> update_entry (JStr (strftime t)) repo deps inst ver idate groups prov e
        | None \<Rightarrow> new_entry (JStr (strftime t)) name repo deps inst ver idate groups prov)
       (packages (data w))"
  by (simp add: add_package_def Let_def split: option.split)

lemma add_package_frame [simp]:
  "metadata (data (add_package t name repo deps inst ver idate groups prov w)) = metadata (data w)"
  "out (add_package t name repo deps inst ver idate groups prov w) = out w"
  "disk (add_package t name repo deps inst ver idate groups prov w) =
     Doc (encode (data (add_package t name repo deps inst ver idate groups prov w)))"
  by (simp_all add: add_package_def Let_def split: option.split)

lemma entry_field_add_package:
  "entry_field (add_package t name repo deps inst ver idate groups prov w) name k =
     (case map_of (packages (data w)) name of
        Some e \<Rightarrow> map_of (update_entry (JStr (strftime t)) repo deps inst ver idate groups prov e) k
      | None \<Rightarrow> map_of (new_entry (JStr (strftime t)) name repo deps inst ver idate groups prov) k)"
  by (simp add: entry_field_def add_package_packages update_conv' split: option.split)

lemma entry_field_add_package_other:
  "n \<noteq> name \<Longrightarrow>
   entry_field (add_package t name repo deps inst ver idate groups prov w) n k = entry_field w n k"
  by (simp add: entry_field_def add_package_packages update_conv')

lemma map_of_add_package_same:
  "map_of (packages (data (add_package t name repo deps inst ver idate groups prov w))) name \<noteq> None"
  by (simp add: add_package_packages update_conv')

lemma set_installed_present:
  "map_of (packages (data w)) name = Some e \<Longrightarrow>
   packages (data (set_installed clock name b w)) =
     AList.update name
       (AList.update ''last_update_date'' (JStr (strftime clock))
          (AList.update ''installed'' (JBool b) e)) (packages (data w))
   \<and> metadata (data (set_installed clock name b w)) = metadata (data w)
   \<and> disk (set_installed clock name b w) = Doc (encode (data (set_installed clock name b w)))"
  by (simp add: set_installed_def Let_def)

text \<open>A removal that is simulated or completes: the entry is rewritten and saved.\<close>

lemma cmd_uninstall_present:
  assumes e: "map_of (packages (data w)) name = Some e" and ok: "dryrun \<or> r = Completed"
  shows "fst (cmd_uninstall dryrun r clock [name] w) \<and>
         packages (data (snd (cmd_uninstall dryrun r clock [name] w))) =
           AList.update name
             (AList.update ''last_update_date'' (JStr (strftime clock))
                (AList.update ''installed'' (JBool False) e)) (packages (data w)) \<and>
         metadata (data (snd (cmd_uninstall dryrun r clock [name] w))) = metadata (data w) \<and>
         disk (snd (cmd_uninstall dryrun r clock [name] w)) =
           Doc (encode (data (snd (cmd_uninstall dryrun r clock [name] w))))"
proof -
  obtain w1 where w1: "(if \<not> dryrun then remove_package r name dryrun w else (True, w)) = (True, w1)"
     and d1: "data w1 = data w"
    using ok by (cases dryrun) (auto simp: remove_package_def run_command_def Let_def)
  show ?thesis
    using e d1 set_installed_present [of w1 name e clock False]
    by (simp add: cmd_uninstall_def w1 Let_def)
qed







lemma map_of_encode_packages:
  "map_of (map (\<lambda>(name, pkg). (name, JObj pkg)) ps) n = map_option JObj (map_of ps n)"
  by (induction ps) auto

lemma file_entry_field_encode:
  "file_entry_field (Doc (encode d)) name key =
     (case map_of (packages d) name of None \<Rightarrow> None | Some e \<Rightarrow> map_of e key)"
  by (simp add: file_entry_field_def encode_def map_of_encode_packages split: option.split)

lemma file_metadata_field_encode:
  "file_metadata_field (Doc (encode d)) key =
     (case metadata d of None \<Rightarrow> None | Some m \<Rightarrow> map_of m key)"
  by (simp add: file_metadata_field_def encode_def split: option.split)

lemma cmd_update_dryrun:
  assumes p: "check_update_policy strptime fromiso clock (data w) = Inr (needs_update, message)"
    and f: "force \<or> needs_update"
  shows "\<exists>m. metadata (data w) = Some m \<and>
     cmd_update strptime fromiso True force interactive response aur_helper r1 r2 clock clock' w =
       (Inr True,
        print SystemUpdated
          (save ((print DryRunUpdate w)\<lparr>data := (data w)\<lparr>metadata :=
             Some (AList.update ''last_full_update_date''
                     (JStr (to_human fromiso (strftime clock'))) m)\<rparr>\<rparr>)))"
proof -
  from p obtain m where m: "metadata (data w) = Some m"
    by (cases "metadata (data w)") (simp_all add: check_update_policy_def)
  have u: "update_metadata fromiso ''last_full_update_date'' (JStr (strftime clock'))
             (print DryRunUpdate w) =
           Inr (save ((print DryRunUpdate w)\<lparr>data := (data w)\<lparr>metadata :=
             Some (AList.update ''last_full_update_date''
                     (JStr (to_human fromiso (strftime clock'))) m)\<rparr>\<rparr>))"
    using update_metadata_stamp [of "print DryRunUpdate w" m fromiso "strftime clock'"] m
    by simp
  show ?thesis
    using f m by (auto simp add: cmd_update_def p update_system_def u)
qed


text \<open>A stamp determines the clock reading up to its microsecond.\<close>

lemma digit_char_eq: "(digit_char a = digit_char b) = (a mod 10 = b mod 10)"
proof -
  have d: "distinct ''0123456789''" by simp
  have l: "a mod 10 < length ''0123456789''" "b mod 10 < length ''0123456789''" by simp_all
  show ?thesis
    unfolding digit_char_def using nth_eq_iff_index_eq [OF d l] .
qed

lemma digit_char_no_space: "digit_char n \<noteq> CHR '' ''" "CHR '' '' \<noteq> digit_char n"
proof -
  have "n mod 10 < length ''0123456789''" by simp
  then have "''0123456789'' ! (n mod 10) \<in> set ''0123456789''" by (rule nth_mem)
  then show "digit_char n \<noteq> CHR '' ''" unfolding digit_char_def by auto
  then show "CHR '' '' \<noteq> digit_char n" by (rule not_sym)
qed

lemma str_nat_no_space: "CHR '' '' \<notin> set (str_nat n)"
  by (induction n rule: str_nat.induct) (subst str_nat.simps, simp add: digit_char_no_space)

lemma str_nat_not_Nil: "str_nat n \<noteq> []"
  by (subst str_nat.simps) simp

lemma str_nat_inj: "str_nat a = str_nat b \<Longrightarrow> a = b"
proof (induction a arbitrary: b rule: str_nat.induct)
  case (1 n)
  show ?case
  proof (cases "n < 10")
    case True
    show ?thesis
    proof (cases "b < 10")
      case b: True
      from 1(2) True b have "digit_char n = digit_char b" by (simp add: str_nat.simps)
      with True b show ?thesis by (simp add: digit_char_eq)
    next
      case b: False
      from 1(2) True b have "[digit_char n] = str_nat (b div 10) @ [digit_char b]"
        by (simp add: str_nat.simps [of n] str_nat.simps [of b])
      then show ?thesis using str_nat_not_Nil [of "b div 10"] by simp
    qed
  next
    case False
    show ?thesis
    proof (cases "b < 10")
      case b: True
      from 1(2) False b have "str_nat (n div 10) @ [digit_char n] = [digit_char b]"
        by (simp add: str_nat.simps [of n] str_nat.simps [of b])
      then show ?thesis using str_nat_not_Nil [of "n div 10"] by simp
    next
      case b: False
      from 1(2) False b have "str_nat (n div 10) @ [digit_char n] = str_nat (b div 10) @ [digit_char b]"
        by (simp add: str_nat.simps [of n] str_nat.simps [of b])
      then have e: "str_nat (n div 10) = str_nat (b div 10)" "digit_char n = digit_char b"
        by simp_all
      from 1(1) [OF False e(1)] have "n div 10 = b div 10" .
      moreover from e(2) have "n mod 10 = b mod 10" by (simp add: digit_char_eq)
      ultimately show ?thesis by (metis div_mult_mod_eq)
    qed
  qed
qed


lemma two_digits_inj: "a < 100 \<Longrightarrow> b < 100 \<Longrightarrow> two_digits a = two_digits b \<Longrightarrow> a = b"
proof -
  assume a: "a < 100" and b: "b < 100" and e: "two_digits a = two_digits b"
  from e have "(a div 10) mod 10 = (b div 10) mod 10" "a mod 10 = b mod 10"
    by (simp_all add: two_digits_def digit_char_eq)
  moreover from a b have "(a div 10) mod 10 = a div 10" "(b div 10) mod 10 = b div 10" by simp_all
  ultimately have d: "a div 10 = b div 10" "a mod 10 = b mod 10" by simp_all
  have "a = 10 * (a div 10) + a mod 10" by simp
  also have "\<dots> = 10 * (b div 10) + b mod 10" by (simp only: d)
  also have "\<dots> = b" by simp
  finally show ?thesis .
qed

lemma length_day_abbr: "length (day_abbr n) = 3"
proof -
  have "day_abbr n \<in> set [''Mon'', ''Tue'', ''Wed'', ''Thu'', ''Fri'', ''Sat'', ''Sun'']"
    unfolding day_abbr_def by (rule nth_mem) simp
  then show ?thesis by auto
qed

lemma length_month_abbr: "length (month_abbr m) = 3"
proof -
  have "month_abbr m \<in> set [''Jan'', ''Feb'', ''Mar'', ''Apr'', ''May'', ''Jun'',
      ''Jul'', ''Aug'', ''Sep'', ''Oct'', ''Nov'', ''Dec'']"
    unfolding month_abbr_def by (rule nth_mem) simp
  then show ?thesis by auto
qed

lemma month_abbr_inj:
  assumes "1 \<le> a" "a \<le> 12" "1 \<le> b" "b \<le> 12" "month_abbr a = month_abbr b"
  shows "a = b"
proof -
  let ?names = "[''Jan'', ''Feb'', ''Mar'', ''Apr'', ''May'', ''Jun'',
      ''Jul'', ''Aug'', ''Sep'', ''Oct'', ''Nov'', ''Dec'']"
  have d: "distinct ?names" by simp
  have l: "(a - 1) mod 12 < length ?names" "(b - 1) mod 12 < length ?names" by simp_all
  from assms(5) have "(a - 1) mod 12 = (b - 1) mod 12"
    unfolding month_abbr_def using nth_eq_iff_index_eq [OF d l] by blast
  moreover from assms(2,4) have "(a - 1) mod 12 = a - 1" "(b - 1) mod 12 = b - 1"
    by simp_all
  ultimately have "a - 1 = b - 1" by (simp only:)
  with assms(1,3) show ?thesis by linarith
qed

lemma hour_inj:
  assumes "a < 24" "b < 24" "hour12 a = hour12 b" "(a < 12) = (b < 12)"
  shows "a = (b::nat)"
proof -
  have "hour12 a mod 12 = a mod 12" "hour12 b mod 12 = b mod 12"
    by (simp_all add: hour12_def)
  with assms(3) have m: "a mod 12 = b mod 12" by simp
  show ?thesis
  proof (cases "a < 12")
    case True
    with assms(4) have "b < 12" by simp
    with True m show ?thesis by simp
  next
    case False
    with assms(4) have b: "\<not> b < 12" by simp
    from False assms(1) have "a mod 12 = a - 12" by (simp add: le_mod_geq)
    moreover from b assms(2) have "b mod 12 = b - 12" by (simp add: le_mod_geq)
    ultimately have "a - 12 = b - 12" using m by simp
    with False b show ?thesis by linarith
  qed
qed

lemma split_at_space:
  "CHR '' '' \<notin> set a \<Longrightarrow> CHR '' '' \<notin> set b \<Longrightarrow> a @ CHR '' '' # r = b @ CHR '' '' # s \<Longrightarrow>
   a = b \<and> r = s"
proof (induction a arbitrary: b)
  case Nil
  then show ?case by (cases b) auto
next
  case (Cons x a)
  then show ?case by (cases b) auto
qed


lemma strftime_same_second:
  assumes a: "valid_now a" and b: "valid_now b"
  shows "(strftime a = strftime b) = same_second a b"
proof
  assume "same_second a b"
  with a b show "strftime a = strftime b"
    by (simp add: strftime_def weekday_def toordinal_def same_second_def valid_now_def)
next
  assume e: "strftime a = strftime b"
  let ?tail = "\<lambda>d. two_digits (hour12 (hour d)) @ '':'' @ two_digits (minute d) @
     '':'' @ two_digits (second d) @ '' '' @ (if hour d < 12 then ''AM'' else ''PM'') @ '' ''"
  let ?mid = "\<lambda>d. month_abbr (month d) @ CHR '' '' # str_nat (year d) @ CHR '' '' # ?tail d"
  from a b have tz: "tzinfo a = None" "tzinfo b = None" by (simp_all add: valid_now_def)
  have s: "strftime d = day_abbr (weekday d) @ (CHR '' '' # two_digits (day d) @ CHR '' '' # ?mid d)"
    if "tzinfo d = None" for d
    using that by (simp add: strftime_def)
  from e have "day_abbr (weekday a) @ (CHR '' '' # two_digits (day a) @ CHR '' '' # ?mid a) =
               day_abbr (weekday b) @ (CHR '' '' # two_digits (day b) @ CHR '' '' # ?mid b)"
    by (simp only: s [OF tz(1)] s [OF tz(2)])
  then have "two_digits (day a) @ CHR '' '' # ?mid a = two_digits (day b) @ CHR '' '' # ?mid b"
    by (simp add: length_day_abbr)
  then have d: "two_digits (day a) = two_digits (day b)" and m: "?mid a = ?mid b"
    by (simp_all add: two_digits_def)
  from m have mo: "month_abbr (month a) = month_abbr (month b)"
    and y: "str_nat (year a) @ CHR '' '' # ?tail a = str_nat (year b) @ CHR '' '' # ?tail b"
    by (simp_all add: length_month_abbr)
  from split_at_space [OF str_nat_no_space str_nat_no_space y]
  have ye: "str_nat (year a) = str_nat (year b)" and t: "?tail a = ?tail b" by simp_all
  from t have h: "two_digits (hour12 (hour a)) = two_digits (hour12 (hour b))"
    and mi: "two_digits (minute a) = two_digits (minute b)"
    and se: "two_digits (second a) = two_digits (second b)"
    and ap: "(hour a < 12) = (hour b < 12)"
    by (simp_all add: two_digits_def split: if_splits)
  have h12: "hour12 x < 100" for x
  proof -
    have "x mod 12 < 12" by simp
    then show ?thesis unfolding hour12_def by (simp only: split: if_split) linarith
  qed
  have dim: "days_in_month y mth < 100" for y mth by (simp add: days_in_month_def)
  from a b have bounds: "day a < 100" "day b < 100" "minute a < 100" "minute b < 100"
    "second a < 100" "second b < 100" "hour a < 24" "hour b < 24"
    "1 \<le> month a" "month a \<le> 12" "1 \<le> month b" "month b \<le> 12"
    using dim [of "year a" "month a"] dim [of "year b" "month b"]
    by (simp_all add: valid_now_def)
  have "year a = year b" using ye by (rule str_nat_inj)
  moreover have "month a = month b" using bounds(9-12) mo by (rule month_abbr_inj)
  moreover have "day a = day b" using bounds(1,2) d by (rule two_digits_inj)
  moreover have "hour12 (hour a) = hour12 (hour b)" using h12 h12 h by (rule two_digits_inj)
  then have "hour a = hour b" using bounds(7,8) ap by (simp add: hour_inj)
  moreover have "minute a = minute b" using bounds(3,4) mi by (rule two_digits_inj)
  moreover have "second a = second b" using bounds(5,6) se by (rule two_digits_inj)
  ultimately show "same_second a b" by (simp add: same_second_def)
qed


lemma valid_now_samples: "valid_now clock0" "valid_now clock1" "valid_now clock2"
  by (simp_all add: valid_now_def clock0_def clock1_def clock2_def naive_def days_in_month_def)

lemma same_second_samples: "same_second clock0 clock1" "\<not> same_second clock0 clock2"
  by (simp_all add: same_second_def clock0_def clock1_def clock2_def naive_def)

lemma to_micro_truncate:
  "to_micro (t\<lparr>microsecond := 0\<rparr>) = to_micro t - int (microsecond t)"
  by (simp add: to_micro_def toordinal_def)

lemma truncate_mono:
  assumes "microsecond a < 1000000" "microsecond b < 1000000" "to_micro a \<le> to_micro b"
  shows "to_micro (a\<lparr>microsecond := 0\<rparr>) \<le> to_micro (b\<lparr>microsecond := 0\<rparr>)"
proof -
  define x where
    "x = ((int (toordinal a) * 24 + int (hour a)) * 60 + int (minute a)) * 60 + int (second a)"
  define y where
    "y = ((int (toordinal b) * 24 + int (hour b)) * 60 + int (minute b)) * 60 + int (second b)"
  have x: "to_micro a = x * 1000000 + int (microsecond a)"
    by (simp only: to_micro_def x_def)
  have y: "to_micro b = y * 1000000 + int (microsecond b)"
    by (simp only: to_micro_def y_def)
  from assms x y have "x * 1000000 < (y + 1) * 1000000" by simp
  then have "x \<le> y" by simp
  then show ?thesis by (simp add: to_micro_truncate x y)
qed


text \<open>The query loop as a filter, and the chain of splits as one scan.\<close>

lemma matches_iff:
  "matches filters pkg = (\<forall>(key, v) \<in> set filters. \<forall>x. map_of pkg key = Some x \<longrightarrow> py_eq x v)"
  by (induction filters pkg rule: matches.induct) (auto split: option.splits)

lemma query_loop_filter: "query_loop filters ps = filter (\<lambda>(name, pkg). matches filters pkg) ps"
  by (induction filters ps rule: query_loop.induct) auto













section \<open>Operations on an absent name\<close>

text \<open>
  C4. For every store and every name that is not a key of its packages,
  \<^verbatim>\<open>set_installed(name, b)\<close> and \<^verbatim>\<open>add_version_history(name, v)\<close> return normally and leave
  the data in memory, the file, the log and the output as they were; in particular the
  name is still no key of the packages afterwards.
\<close>

theorem absent_name_is_noop:
  "\<not> has_key (packages (data w)) name \<Longrightarrow>
     set_installed clock name b w = w \<and>
     add_version_history clock name v w = Inr w \<and>
     \<not> has_key (packages (data (set_installed clock name b w))) name"
  by (simp add: has_key_def set_installed_def add_version_history_def)

theorem absent_name_is_noop_witness:
  "\<not> has_key (packages (data world0)) ''vim'' \<and>
   set_installed clock0 ''vim'' False world0 = world0 \<and>
   add_version_history clock0 ''vim'' ''9.1'' world0 = Inr world0 \<and>
   \<not> has_key (packages (data (set_installed clock0 ''vim'' False world0))) ''vim''"
proof -
  have h: "\<not> has_key (packages (data world0)) ''vim''"
    by (simp add: has_key_def world0_def)
  show ?thesis
    using h absent_name_is_noop [OF h, of clock0 False "''9.1''"] by simp
qed

section \<open>Uninstalling\<close>

text \<open>
  C5. For every store with an entry for the name (its \<open>installed\<close> field true or not), an
  uninstall whose removal command completes, or that runs as a dry run, returns success
  and keeps the entry: its \<open>installed\<close> field is false, its \<open>last_update_date\<close> is the
  stamp of the clock, every other field of the entry, \<open>update_history\<close> among them, is as
  before; the names of the store and every other entry are as before, and the metadata too.
\<close>

theorem uninstall_keeps_entry:
  assumes "map_of (packages (data w)) name = Some e" and "dryrun \<or> r = Completed"
  shows "fst (cmd_uninstall dryrun r clock [name] w) \<and>
     (let w' = snd (cmd_uninstall dryrun r clock [name] w);
          e' = AList.update ''last_update_date'' (JStr (strftime clock))
                 (AList.update ''installed'' (JBool False) e)
      in map_of (packages (data w')) name = Some e' \<and>
         map_of e' ''installed'' = Some (JBool False) \<and>
         map_of e' ''last_update_date'' = Some (JStr (strftime clock)) \<and>
         map_of e' ''update_history'' = map_of e ''update_history'' \<and>
         (\<forall>k. k \<noteq> ''installed'' \<and> k \<noteq> ''last_update_date'' \<longrightarrow> map_of e' k = map_of e k) \<and>
         map fst (packages (data w')) = map fst (packages (data w)) \<and>
         (\<forall>n. n \<noteq> name \<longrightarrow> map_of (packages (data w')) n = map_of (packages (data w)) n) \<and>
         metadata (data w') = metadata (data w))"
proof -
  from assms(1) have "(name, e) \<in> set (packages (data w))" by (rule map_of_SomeD)
  then have k: "name \<in> fst ` set (packages (data w))" by force
  show ?thesis
    using k cmd_uninstall_present [OF assms, of clock]
    by (simp add: Let_def update_conv' update_keys)
qed

theorem uninstall_keeps_entry_witness:
  "map_of (packages (data world0)) ''htop'' = Some htop_entry \<and>
   (False \<or> Completed = Completed) \<and>
   fst (cmd_uninstall False Completed clock0 [''htop''] world0) \<and>
   map_of (packages (data (snd (cmd_uninstall False Completed clock0 [''htop''] world0)))) ''htop'' =
     Some [(''name'', JStr ''htop''), (''installed'', JBool False), (''repo'', JStr ''extra''),
           (''dependencies'', JList [JStr ''ncurses'']), (''groups'', JList []),
           (''provides'', JList []), (''version'', JStr ''3.3.0-1''),
           (''install_date'', JStr ''Sun 31 Dec 2023 09:00:00 PM ''),
           (''update_history'', JList []),
           (''last_update_date'', JStr ''Mon 01 Jan 2024 10:00:00 AM '')]"
proof -
  have h1: "map_of (packages (data world0)) ''htop'' = Some htop_entry"
    by (simp add: world0_def)
  have h2: "False \<or> Completed = Completed" by simp
  show ?thesis
    using h1 uninstall_keeps_entry [OF h1 h2, of clock0]
    by (simp add: Let_def htop_entry_def strftime_clock0)
qed

section \<open>The staleness policy\<close>







section \<open>Dry runs\<close>

text \<open>
  C10. A dry run still writes the ledger. After a dry-run uninstall of a name that has an
  entry, the file holds that entry with \<open>installed\<close> false and \<open>last_update_date\<close> the
  stamp of the clock, its other fields as they were in memory. After a dry-run update
  that is forced, or that the policy says is due, the file holds \<open>last_full_update_date\<close>
  set to the stamp of the clock after the update (as \<^verbatim>\<open>update_metadata\<close> normalises it: the
  stamp itself unless \<^verbatim>\<open>fromisoformat\<close> accepts it), and the entries as they are in memory.
\<close>

theorem dryrun_writes_ledger:
  "(map_of (packages (data w)) name = Some e \<longrightarrow>
      (let w' = snd (cmd_uninstall True r clock [name] w)
       in file_entry_field (disk w') name ''installed'' = Some (JBool False) \<and>
          file_entry_field (disk w') name ''last_update_date'' = Some (JStr (strftime clock)) \<and>
          (\<forall>k. k \<noteq> ''installed'' \<and> k \<noteq> ''last_update_date'' \<longrightarrow>
                file_entry_field (disk w') name k = map_of e k) \<and>
          entry_field w' name ''installed'' = Some (JBool False))) \<and>
   (check_update_policy strptime fromiso clock (data w) = Inr (needs_update, message) \<and>
    (force \<or> needs_update) \<longrightarrow>
      (let w' = snd (cmd_update strptime fromiso True force interactive response aur_helper
                       r1 r2 clock clock' w)
       in file_metadata_field (disk w') ''last_full_update_date'' =
            Some (JStr (to_human fromiso (strftime clock'))) \<and>
          (fromiso (strftime clock') = None \<longrightarrow>
             file_metadata_field (disk w') ''last_full_update_date'' =
               Some (JStr (strftime clock'))) \<and>
          (\<forall>n k. file_entry_field (disk w') n k = entry_field w n k)))"
proof (intro conjI impI)
  assume e: "map_of (packages (data w)) name = Some e"
  have t: "True \<or> r = Completed" by simp
  show "let w' = snd (cmd_uninstall True r clock [name] w)
       in file_entry_field (disk w') name ''installed'' = Some (JBool False) \<and>
          file_entry_field (disk w') name ''last_update_date'' = Some (JStr (strftime clock)) \<and>
          (\<forall>k. k \<noteq> ''installed'' \<and> k \<noteq> ''last_update_date'' \<longrightarrow>
                file_entry_field (disk w') name k = map_of e k) \<and>
          entry_field w' name ''installed'' = Some (JBool False)"
    using cmd_uninstall_present [OF e t, of clock]
    by (simp add: Let_def update_conv' file_entry_field_encode entry_field_def)
next
  assume a: "check_update_policy strptime fromiso clock (data w) = Inr (needs_update, message) \<and>
             (force \<or> needs_update)"
  then obtain m where
    c: "cmd_update strptime fromiso True force interactive response aur_helper r1 r2 clock clock' w =
       (Inr True,
        print SystemUpdated
          (save ((print DryRunUpdate w)\<lparr>data := (data w)\<lparr>metadata :=
             Some (AList.update ''last_full_update_date''
                     (JStr (to_human fromiso (strftime clock'))) m)\<rparr>\<rparr>)))"
    using cmd_update_dryrun [of strptime fromiso clock w needs_update message force] by blast
  show "let w' = snd (cmd_update strptime fromiso True force interactive response aur_helper
                       r1 r2 clock clock' w)
       in file_metadata_field (disk w') ''last_full_update_date'' =
            Some (JStr (to_human fromiso (strftime clock'))) \<and>
          (fromiso (strftime clock') = None \<longrightarrow>
             file_metadata_field (disk w') ''last_full_update_date'' =
               Some (JStr (strftime clock'))) \<and>
          (\<forall>n k. file_entry_field (disk w') n k = entry_field w n k)"
    by (simp add: c Let_def file_metadata_field_encode file_entry_field_encode update_conv'
        entry_field_def to_human_def)
qed

theorem dryrun_writes_ledger_witness:
  "map_of (packages (data world0)) ''htop'' = Some htop_entry \<and>
   check_update_policy sample_strptime no_iso clock0 (data world0) =
     Inr (True, ''No previous update found'') \<and>
   disk world0 = Missing \<and>
   file_entry_field (disk (snd (cmd_uninstall True Completed clock0 [''htop''] world0)))
     ''htop'' ''installed'' = Some (JBool False) \<and>
   file_entry_field (disk (snd (cmd_uninstall True Completed clock0 [''htop''] world0)))
     ''htop'' ''last_update_date'' = Some (JStr ''Mon 01 Jan 2024 10:00:00 AM '') \<and>
   file_entry_field (disk (snd (cmd_uninstall True Completed clock0 [''htop''] world0)))
     ''htop'' ''version'' = Some (JStr ''3.3.0-1'') \<and>
   file_metadata_field
     (disk (snd (cmd_update sample_strptime no_iso True False False [] ''paru''
                   Completed Completed clock0 clock1 world0)))
     ''last_full_update_date'' = Some (JStr ''Mon 01 Jan 2024 10:00:00 AM '') \<and>
   file_entry_field
     (disk (snd (cmd_update sample_strptime no_iso True False False [] ''paru''
                   Completed Completed clock0 clock1 world0)))
     ''htop'' ''installed'' = Some (JBool True)"
proof -
  have h1: "map_of (packages (data world0)) ''htop'' = Some htop_entry"
    by (simp add: world0_def)
  have h2: "check_update_policy sample_strptime no_iso clock0 (data world0) =
              Inr (True, ''No previous update found'')"
    by (simp add: check_update_policy_def world0_def dict_get_def)
  have h3: "to_human no_iso (strftime clock1) = ''Mon 01 Jan 2024 10:00:00 AM ''"
    by (simp add: to_human_def no_iso_def strftime_clock1)
  have h4: "disk world0 = Missing" by (simp add: world0_def)
  have h5: "entry_field world0 ''htop'' ''installed'' = Some (JBool True)"
    by (simp add: entry_field_def world0_def htop_entry_def)
  have h6: "map_of htop_entry ''version'' = Some (JStr ''3.3.0-1'')"
    by (simp add: htop_entry_def)
  show ?thesis
    using h1 h2 h4
      dryrun_writes_ledger [of world0 "''htop''" htop_entry Completed clock0 sample_strptime
        no_iso True "''No previous update found''" False False "[]" "''paru''" Completed
        Completed clock1]
    by (simp add: Let_def h3 h5 h6 strftime_clock0)
qed

section \<open>Upserting twice\<close>

text \<open>
  C3, as the claim states it, fails: the stamp has no field below the second, so a second
  upsert in the same second as the first leaves \<open>last_update_date\<close> as it was, although
  the clock has advanced.
\<close>

theorem upsert_twice_same_second_counterexample:
  "to_micro clock0 < to_micro clock1 \<and>
   entry_field
     (add_package clock1 ''htop'' (JStr ''extra'') (JList [JStr ''ncurses'']) (JBool True)
        (JStr ''3.3.0-1'') (JStr []) (JList []) (JList [])
        (add_package clock0 ''htop'' (JStr ''extra'') (JList [JStr ''ncurses'']) (JBool True)
           (JStr ''3.3.0-1'') (JStr []) (JList []) (JList []) world0))
     ''htop'' ''last_update_date'' =
   entry_field
     (add_package clock0 ''htop'' (JStr ''extra'') (JList [JStr ''ncurses'']) (JBool True)
        (JStr ''3.3.0-1'') (JStr []) (JList []) (JList []) world0)
     ''htop'' ''last_update_date''"
  by (simp add: clock0_before_clock1 entry_field_add_package map_of_update_entry
      add_package_packages update_conv' world0_def strftime_clock0 strftime_clock1)


text \<open>
  C3, amended. For every store, every name and all arguments, and for all readings of
  the clock in the two calls: an upsert followed by a second upsert with the same
  arguments leaves every field of the entry but \<open>last_update_date\<close> as the first upsert
  left it. The first upsert sets \<open>last_update_date\<close> to the stamp of its clock reading
  and the second one to the stamp of its own; the field changes in the second upsert
  exactly when the two calls do not fall in the same second, and when the clock has not
  gone back between the calls, the second that the stamp records has not gone back
  either. The other entries, the order of the names and the metadata are as after the
  first upsert.
\<close>

theorem upsert_twice:
  fixes w t1 t2 name repo deps inst ver idate groups prov
  assumes v1: "valid_now t1" and v2: "valid_now t2"
  defines "w1 \<equiv> add_package t1 name repo deps inst ver idate groups prov w"
  defines "w2 \<equiv> add_package t2 name repo deps inst ver idate groups prov w1"
  shows "(\<forall>k. k \<noteq> ''last_update_date'' \<longrightarrow> entry_field w2 name k = entry_field w1 name k) \<and>
         entry_field w1 name ''last_update_date'' = Some (JStr (strftime t1)) \<and>
         entry_field w2 name ''last_update_date'' = Some (JStr (strftime t2)) \<and>
         ((entry_field w2 name ''last_update_date'' = entry_field w1 name ''last_update_date'') =
            same_second t1 t2) \<and>
         (to_micro t1 \<le> to_micro t2 \<longrightarrow>
            to_micro (t1\<lparr>microsecond := 0\<rparr>) \<le> to_micro (t2\<lparr>microsecond := 0\<rparr>)) \<and>
         (\<forall>n k. n \<noteq> name \<longrightarrow> entry_field w2 n k = entry_field w1 n k) \<and>
         map fst (packages (data w2)) = map fst (packages (data w1)) \<and>
         metadata (data w2) = metadata (data w1)"
proof -
  obtain e1 where e1: "map_of (packages (data w1)) name = Some e1"
    using map_of_add_package_same [of t1 name repo deps inst ver idate groups prov w]
    unfolding w1_def by blast
  have f1: "entry_field w1 name k =
     (case map_of (packages (data w)) name of
        Some e \<Rightarrow> map_of (update_entry (JStr (strftime t1)) repo deps inst ver idate groups prov e) k
      | None \<Rightarrow> map_of (new_entry (JStr (strftime t1)) name repo deps inst ver idate groups prov) k)" for k
    unfolding w1_def by (rule entry_field_add_package)
  have m1: "map_of e1 k = entry_field w1 name k" for k
    by (simp add: entry_field_def e1)
  have f2: "entry_field w2 name k =
      map_of (update_entry (JStr (strftime t2)) repo deps inst ver idate groups prov e1) k" for k
    unfolding w2_def by (simp add: entry_field_add_package e1)
  have a: "\<forall>k. k \<noteq> ''last_update_date'' \<longrightarrow> entry_field w2 name k = entry_field w1 name k"
    by (simp add: f2 map_of_update_entry m1 f1 map_of_new_entry split: option.split)
  have b1: "entry_field w1 name ''last_update_date'' = Some (JStr (strftime t1))"
    by (simp add: f1 map_of_update_entry map_of_new_entry split: option.split)
  have b2: "entry_field w2 name ''last_update_date'' = Some (JStr (strftime t2))"
    by (simp add: f2 map_of_update_entry)
  have b3: "(entry_field w2 name ''last_update_date'' = entry_field w1 name ''last_update_date'') =
            same_second t1 t2"
    using strftime_same_second [OF v1 v2] by (auto simp add: b1 b2)
  have b4: "to_micro t1 \<le> to_micro t2 \<longrightarrow>
            to_micro (t1\<lparr>microsecond := 0\<rparr>) \<le> to_micro (t2\<lparr>microsecond := 0\<rparr>)"
    using v1 v2 truncate_mono [of t1 t2] by (simp add: valid_now_def)
  have c: "\<forall>n k. n \<noteq> name \<longrightarrow> entry_field w2 n k = entry_field w1 n k"
    unfolding w2_def by (simp add: entry_field_add_package_other)
  from e1 have "(name, e1) \<in> set (packages (data w1))" by (rule map_of_SomeD)
  then have k: "name \<in> fst ` set (packages (data w1))" by force
  have d: "map fst (packages (data w2)) = map fst (packages (data w1))"
    unfolding w2_def using k by (simp add: add_package_packages update_keys)
  have e: "metadata (data w2) = metadata (data w1)"
    unfolding w2_def by simp
  show ?thesis using a b1 b2 b3 b4 c d e by blast
qed


theorem upsert_twice_witness:
  "valid_now clock0 \<and> valid_now clock2 \<and> \<not> same_second clock0 clock2 \<and>
   entry_field
     (add_package clock0 ''htop'' (JStr ''extra'') (JList [JStr ''ncurses'']) (JBool True)
        (JStr ''3.3.0-1'') (JStr []) (JList []) (JList []) world0)
     ''htop'' ''last_update_date'' = Some (JStr ''Mon 01 Jan 2024 10:00:00 AM '') \<and>
   entry_field
     (add_package clock2 ''htop'' (JStr ''extra'') (JList [JStr ''ncurses'']) (JBool True)
        (JStr ''3.3.0-1'') (JStr []) (JList []) (JList [])
        (add_package clock0 ''htop'' (JStr ''extra'') (JList [JStr ''ncurses'']) (JBool True)
           (JStr ''3.3.0-1'') (JStr []) (JList []) (JList []) world0))
     ''htop'' ''last_update_date'' = Some (JStr ''Mon 01 Jan 2024 10:00:05 AM '') \<and>
   entry_field
     (add_package clock2 ''htop'' (JStr ''extra'') (JList [JStr ''ncurses'']) (JBool True)
        (JStr ''3.3.0-1'') (JStr []) (JList []) (JList [])
        (add_package clock0 ''htop'' (JStr ''extra'') (JList [JStr ''ncurses'']) (JBool True)
           (JStr ''3.3.0-1'') (JStr []) (JList []) (JList []) world0))
     ''htop'' ''last_update_date'' \<noteq>
   entry_field
     (add_package clock0 ''htop'' (JStr ''extra'') (JList [JStr ''ncurses'']) (JBool True)
        (JStr ''3.3.0-1'') (JStr []) (JList []) (JList []) world0)
     ''htop'' ''last_update_date'' \<and>
   entry_field
     (add_package clock2 ''htop'' (JStr ''extra'') (JList [JStr ''ncurses'']) (JBool True)
        (JStr ''3.3.0-1'') (JStr []) (JList []) (JList [])
        (add_package clock0 ''htop'' (JStr ''extra'') (JList [JStr ''ncurses'']) (JBool True)
           (JStr ''3.3.0-1'') (JStr []) (JList []) (JList []) world0))
     ''htop'' ''install_date'' =
   entry_field
     (add_package clock0 ''htop'' (JStr ''extra'') (JList [JStr ''ncurses'']) (JBool True)
        (JStr ''3.3.0-1'') (JStr []) (JList []) (JList []) world0)
     ''htop'' ''install_date''"
  using valid_now_samples(1,3) same_second_samples(2)
    upsert_twice [OF valid_now_samples(1) valid_now_samples(3),
      where name = "''htop''" and repo = "JStr ''extra''" and deps = "JList [JStr ''ncurses'']"
        and inst = "JBool True" and ver = "JStr ''3.3.0-1''" and idate = "JStr []"
        and groups = "JList []" and prov = "JList []" and w = world0]
  by (simp add: strftime_clock0 strftime_clock2)

section \<open>Queries\<close>

text \<open>
  C6. For every store and every list of filters, \<^verbatim>\<open>query_packages\<close> returns, in the order
  of the store, exactly the entries in which every filter key that the entry has holds a
  value equal (Python's \<^verbatim>\<open>==\<close>) to the filter's value: the filters are combined with
  "and", and a filter whose key the entry lacks does not exclude it; in particular an
  entry that has none of the filter keys is returned.
\<close>

theorem query_packages_conjunction:
  "query_packages filters w =
     filter (\<lambda>(name, pkg). \<forall>(key, v) \<in> set filters. \<forall>x. map_of pkg key = Some x \<longrightarrow> py_eq x v)
       (packages (data w)) \<and>
   (\<forall>name pkg. (name, pkg) \<in> set (packages (data w)) \<and> (\<forall>(key, v) \<in> set filters. \<not> has_key pkg key)
      \<longrightarrow> (name, pkg) \<in> set (query_packages filters w))"
proof -
  have a: "query_packages filters w =
     filter (\<lambda>(name, pkg). \<forall>(key, v) \<in> set filters. \<forall>x. map_of pkg key = Some x \<longrightarrow> py_eq x v)
       (packages (data w))"
    by (simp add: query_packages_def query_loop_filter matches_iff)
  show ?thesis
    unfolding a by (auto simp: has_key_def)
qed

theorem query_packages_conjunction_witness:
  "query_packages [(''installed'', JBool True), (''repo'', JStr ''aur'')] three_entries =
     [(''yay'', [(''name'', JStr ''yay''), (''installed'', JBool True), (''repo'', JStr ''aur'')])] \<and>
   query_packages [(''version'', JStr ''1.0''), (''installed'', JBool False)] three_entries =
     [(''paru'', [(''name'', JStr ''paru''), (''installed'', JBool False), (''repo'', JStr ''aur'')])]"
  using query_packages_conjunction [of "[(''installed'', JBool True), (''repo'', JStr ''aur'')]" three_entries]
    query_packages_conjunction [of "[(''version'', JStr ''1.0''), (''installed'', JBool False)]" three_entries]
  by (simp add: three_entries_def)

section \<open>Names without version ranges\<close>




end
